theory Spec2Isabelle
  imports Main "HOL-Library.Sublist"
begin

section \<open>Python values and exceptions\<close>

text \<open>
  The servers build Python dictionaries and hand them to \<^verbatim>\<open>json.dumps\<close>. A value that
  reaches \<^verbatim>\<open>json.dumps\<close> here is \<^verbatim>\<open>None\<close>, a bool, an int, a str, a list or a
  dict with string keys; a dict keeps the order in which its keys were inserted, so it
  is an association list (looked up with \<open>map_of\<close>).
\<close>

datatype json =
    JNull
  | JBool bool
  | JInt int
  | JStr string
  | JList "json list"
  | JObj "(string \<times> json) list"

text \<open>
  The exceptions the handlers can see, all subclasses of \<^verbatim>\<open>Exception\<close>.
  \<open>ApiException status reason msg\<close> is \<^verbatim>\<open>kubernetes.client.exceptions.ApiException\<close>
  with its \<^verbatim>\<open>status\<close> and \<^verbatim>\<open>reason\<close> attributes; \<open>msg\<close> is what \<^verbatim>\<open>str(e)\<close>
  returns for it. \<open>OtherException\<close> stands for every other failure of a library
  call (transport failure, timeout, TLS or authentication failure raised by the
  HTTP stack). Each of the remaining constructors carries the message of the exception.
\<close>

datatype exn =
    ApiException "int option" "string option" string
  | AttributeError string
  | TypeError string
  | ValueError string
  | IndexError string
  | KeyError string
  | OtherException string

fun str_exn :: "exn \<Rightarrow> string" where
  "str_exn (ApiException st rs msg) = msg"
| "str_exn (AttributeError msg) = msg"
| "str_exn (TypeError msg) = msg"
| "str_exn (ValueError msg) = msg"
| "str_exn (IndexError msg) = msg"
| "str_exn (KeyError msg) = msg"
| "str_exn (OtherException msg) = msg"

text \<open>A computation either raises (\<open>Inl\<close>) or returns (\<open>Inr\<close>).\<close>

definition and_then :: "exn + 'a \<Rightarrow> ('a \<Rightarrow> exn + 'b) \<Rightarrow> exn + 'b" where
  "and_then m f = (case m of Inl e \<Rightarrow> Inl e | Inr x \<Rightarrow> f x)"

text \<open>\<^verbatim>\<open>try: m  except Exception as e: h(e)\<close>\<close>

definition try_except :: "exn + 'a \<Rightarrow> (exn \<Rightarrow> exn + 'a) \<Rightarrow> exn + 'a" where
  "try_except m h = (case m of Inl e \<Rightarrow> h e | Inr x \<Rightarrow> Inr x)"

text \<open>
  \<^verbatim>\<open>for x in xs: out.append(f(x))\<close> and \<^verbatim>\<open>[f(x) for x in xs]\<close>: the elements are
  visited in order and the first exception ends the loop.
\<close>

fun for_append :: "('a \<Rightarrow> exn + 'b) \<Rightarrow> 'a list \<Rightarrow> exn + 'b list" where
  "for_append f [] = Inr []"
| "for_append f (x # xs) =
     and_then (f x) (\<lambda>y. and_then (for_append f xs) (\<lambda>ys. Inr (y # ys)))"

text \<open>
  Attribute access \<^verbatim>\<open>obj.a\<close> where \<^verbatim>\<open>obj\<close> may be \<^verbatim>\<open>None\<close>: \<open>attr obj a\<close> returns the
  object, of which the caller then reads field \<open>a\<close>, or raises the AttributeError of CPython.
\<close>

definition none_has_no_attribute :: "string \<Rightarrow> string" where
  "none_has_no_attribute a =
     [CHR 0x27] @ ''NoneType'' @ [CHR 0x27] @ '' object has no attribute '' @ [CHR 0x27] @ a @ [CHR 0x27]"

definition attr :: "'a option \<Rightarrow> string \<Rightarrow> exn + 'a" where
  "attr obj a = (case obj of None \<Rightarrow> Inl (AttributeError (none_has_no_attribute a)) | Some x \<Rightarrow> Inr x)"

text \<open>Iterating over a value that may be \<^verbatim>\<open>None\<close>.\<close>

definition none_not_iterable :: string where
  "none_not_iterable = [CHR 0x27] @ ''NoneType'' @ [CHR 0x27] @ '' object is not iterable''"

definition iter :: "'a list option \<Rightarrow> exn + 'a list" where
  "iter xs = (case xs of None \<Rightarrow> Inl (TypeError none_not_iterable) | Some ys \<Rightarrow> Inr ys)"

text \<open>\<^verbatim>\<open>xs or []\<close> and \<^verbatim>\<open>n or 0\<close>: \<^verbatim>\<open>None\<close>, the empty list and \<open>0\<close> are falsy.\<close>

definition or_empty :: "'a list option \<Rightarrow> 'a list" where
  "or_empty xs = (case xs of None \<Rightarrow> [] | Some ys \<Rightarrow> (if ys = [] then [] else ys))"

definition or_zero :: "int option \<Rightarrow> int" where
  "or_zero n = (case n of None \<Rightarrow> 0 | Some i \<Rightarrow> (if i = 0 then 0 else i))"

text \<open>How an optional str or int is serialised, and \<^verbatim>\<open>str(x)\<close> of an optional str.\<close>

definition json_str :: "string option \<Rightarrow> json" where
  "json_str s = (case s of None \<Rightarrow> JNull | Some t \<Rightarrow> JStr t)"

definition json_int :: "int option \<Rightarrow> json" where
  "json_int n = (case n of None \<Rightarrow> JNull | Some i \<Rightarrow> JInt i)"

definition str_opt :: "string option \<Rightarrow> string" where
  "str_opt s = (case s of None \<Rightarrow> ''None'' | Some t \<Rightarrow> t)"

section \<open>The records of the Kubernetes client\<close>

text \<open>
  The objects returned by \<^verbatim>\<open>CoreV1Api\<close> and \<^verbatim>\<open>AppsV1Api\<close>, with the attributes the
  servers read. An attribute that the client leaves \<^verbatim>\<open>None\<close> when the API object
  lacks it is an \<open>option\<close>. \<^verbatim>\<open>labels\<close> is a dict from str to str.
\<close>

record V1ObjectMeta =
  meta_name :: "string option"
  meta_labels :: "(string \<times> string) list option"

record V1Condition =
  cond_type :: string
  cond_status :: string

record V1Namespace =
  ns_metadata :: "V1ObjectMeta option"

record V1NodeStatus =
  node_conditions :: "V1Condition list option"

record V1Node =
  node_metadata :: "V1ObjectMeta option"
  node_status :: "V1NodeStatus option"

record V1ContainerStatus =
  restart_count :: "int option"

record V1PodStatus =
  pod_phase :: "string option"
  pod_conditions :: "V1Condition list option"
  container_statuses :: "V1ContainerStatus list option"

record V1Pod =
  pod_metadata :: "V1ObjectMeta option"
  pod_status :: "V1PodStatus option"

record V1DeploymentSpec =
  spec_replicas :: "int option"

record V1DeploymentStatus =
  ready_replicas :: "int option"
  available_replicas :: "int option"

record V1Deployment =
  dep_metadata :: "V1ObjectMeta option"
  dep_spec :: "V1DeploymentSpec option"
  dep_status :: "V1DeploymentStatus option"

text \<open>
  The cluster as the process sees it through the module-level clients \<^verbatim>\<open>v1\<close> and
  \<^verbatim>\<open>apps_v1\<close>: what each call raises or returns (the \<^verbatim>\<open>items\<close> of the returned list
  object). \<open>list_namespace\<close> takes the \<^verbatim>\<open>limit\<close> argument.
\<close>

record cluster =
  list_namespace :: "int option \<Rightarrow> exn + V1Namespace list"
  list_node :: "exn + V1Node list"
  list_namespaced_pod :: "string \<Rightarrow> exn + V1Pod list"
  list_namespaced_deployment :: "string \<Rightarrow> exn + V1Deployment list"

text \<open>The process environment, read with \<^verbatim>\<open>os.getenv(key, default)\<close>.\<close>

type_synonym environ = "string \<Rightarrow> string option"

definition getenv :: "environ \<Rightarrow> string \<Rightarrow> string \<Rightarrow> string" where
  "getenv env key dflt = (case env key of None \<Rightarrow> dflt | Some v \<Rightarrow> v)"

section \<open>server-simple.py: the HTTP server\<close>

text \<open>
  A response as the handler writes it: the status line, the headers sent with
  \<^verbatim>\<open>send_header\<close>, and the body. \<^verbatim>\<open>send_response\<close> adds a \<^verbatim>\<open>Server\<close> and a \<^verbatim>\<open>Date\<close>
  header to every response and \<^verbatim>\<open>send_error\<close> a \<^verbatim>\<open>Content-Length\<close>; their values come
  from the runtime and they are left out of \<open>resp_headers\<close>. The body is either the
  document given to \<^verbatim>\<open>json.dumps\<close> or the HTML error page of the standard library for
  a code and a message.
\<close>

datatype body = JsonBody json | ErrorPage nat string

record http_response =
  resp_status :: nat
  resp_headers :: "(string \<times> string) list"
  resp_body :: body

definition send_json_response :: "json \<Rightarrow> nat \<Rightarrow> exn + http_response" where
  "send_json_response data status = Inr
     \<lparr>resp_status = status,
      resp_headers = [(''Content-type'', ''application/json''),
                      (''Access-Control-Allow-Origin'', ''*'')],
      resp_body = JsonBody data\<rparr>"

text \<open>
  \<^verbatim>\<open>BaseHTTPRequestHandler.send_error(code, message)\<close> of the standard library, for
  the codes 404 and 500 that \<open>do_GET\<close> gives it: it sends the status line,
  \<^verbatim>\<open>Connection: close\<close>, the content type and the length of the error page, and
  the page.
\<close>

definition send_error :: "nat \<Rightarrow> string \<Rightarrow> http_response" where
  "send_error code message =
     \<lparr>resp_status = code,
      resp_headers = [(''Connection'', ''close''),
                      (''Content-Type'', ''text/html;charset=utf-8'')],
      resp_body = ErrorPage code message\<rparr>"

definition handle_health :: "cluster \<Rightarrow> exn + http_response" where
  "handle_health k =
     try_except
       (and_then (list_namespace k (Some 1)) (\<lambda>_.
          send_json_response
            (JObj [(''status'', JStr ''healthy''),
                   (''kubernetes_api'', JStr ''accessible''),
                   (''server'', JStr ''mcp-eks-server'')]) 200))
       (\<lambda>e. send_json_response
            (JObj [(''status'', JStr ''unhealthy''),
                   (''kubernetes_api'', JStr ''inaccessible''),
                   (''error'', JStr (str_exn e))]) 500)"

definition namespace_name :: "V1Namespace \<Rightarrow> exn + json" where
  "namespace_name ns = and_then (attr (ns_metadata ns) ''name'') (\<lambda>m. Inr (json_str (meta_name m)))"

definition handle_cluster_info :: "environ \<Rightarrow> cluster \<Rightarrow> exn + http_response" where
  "handle_cluster_info env k =
     try_except
       (and_then (list_namespace k None) (\<lambda>namespaces.
        and_then (for_append namespace_name namespaces) (\<lambda>names.
          send_json_response
            (JObj [(''cluster_name'', JStr (getenv env ''CLUSTER_NAME'' ''mcp-eks-cluster'')),
                   (''region'', JStr (getenv env ''AWS_REGION'' ''us-east-1'')),
                   (''namespace_count'', JInt (int (length namespaces))),
                   (''namespaces'', JList names)]) 200)))
       (\<lambda>e. send_json_response (JObj [(''error'', JStr (str_exn e))]) 500)"

text \<open>
  \<^verbatim>\<open>labels.get(key, "unknown")\<close> on the labels of a node; \<^verbatim>\<open>labels\<close> itself may be
  \<^verbatim>\<open>None\<close>, which has no \<^verbatim>\<open>get\<close>.
\<close>

definition labels_get :: "(string \<times> string) list option \<Rightarrow> string \<Rightarrow> string \<Rightarrow> exn + string" where
  "labels_get labels key dflt =
     and_then (attr labels ''get'') (\<lambda>d. Inr (case map_of d key of None \<Rightarrow> dflt | Some v \<Rightarrow> v))"

definition is_ready :: "V1Condition \<Rightarrow> bool" where
  "is_ready c = (cond_type c = ''Ready'' \<and> cond_status c = ''True'')"

text \<open>
  The dict appended for one node (server-simple.py lines 101 to 109, the same text as
  server-enhanced.py lines 87 to 95). The entries are evaluated in the order written.
\<close>

definition node_info_entry :: "V1Node \<Rightarrow> exn + json" where
  "node_info_entry node =
     and_then (attr (node_metadata node) ''name'') (\<lambda>m.
     and_then (attr (node_status node) ''conditions'') (\<lambda>st.
     and_then (iter (node_conditions st)) (\<lambda>conds.
     and_then (attr (node_metadata node) ''labels'') (\<lambda>m1.
     and_then (labels_get (meta_labels m1) ''node.kubernetes.io/instance-type'' ''unknown'') (\<lambda>ty.
     and_then (attr (node_metadata node) ''labels'') (\<lambda>m2.
     and_then (labels_get (meta_labels m2) ''topology.kubernetes.io/zone'' ''unknown'') (\<lambda>zone.
       Inr (JObj [(''name'', json_str (meta_name m)),
                  (''status'', JStr (if list_ex is_ready conds then ''Ready'' else ''NotReady'')),
                  (''instance_type'', JStr ty),
                  (''zone'', JStr zone)]))))))))"

definition handle_nodes :: "cluster \<Rightarrow> exn + http_response" where
  "handle_nodes k =
     try_except
       (and_then (list_node k) (\<lambda>nodes.
        and_then (for_append node_info_entry nodes) (\<lambda>node_info.
          send_json_response
            (JObj [(''node_count'', JInt (int (length nodes))),
                   (''nodes'', JList node_info)]) 200)))
       (\<lambda>e. send_json_response (JObj [(''error'', JStr (str_exn e))]) 500)"

definition pod_info :: "V1Pod \<Rightarrow> exn + json" where
  "pod_info pod =
     and_then (attr (pod_metadata pod) ''name'') (\<lambda>m.
     and_then (attr (pod_status pod) ''phase'') (\<lambda>st.
       Inr (JObj [(''name'', json_str (meta_name m)),
                  (''phase'', json_str (pod_phase st)),
                  (''ready'', JInt (int (length (filter is_ready (or_empty (pod_conditions st)))))),
                  (''restart_count'',
                     JInt (sum_list (map (\<lambda>c. or_zero (restart_count c))
                                         (or_empty (container_statuses st)))))])))"

text \<open>The two \<^verbatim>\<open>except\<close> clauses shared by the namespace-scoped handlers.\<close>

definition namespace_not_found :: "string \<Rightarrow> string" where
  "namespace_not_found namespace =
     ''Namespace '' @ [CHR 0x27] @ namespace @ [CHR 0x27] @ '' not found''"

definition api_error :: "string option \<Rightarrow> string" where
  "api_error reason = ''API error: '' @ str_opt reason"

fun namespaced_except :: "string \<Rightarrow> exn \<Rightarrow> exn + http_response" where
  "namespaced_except namespace (ApiException status reason msg) =
     send_json_response
       (if status = Some 404 then JObj [(''error'', JStr (namespace_not_found namespace))]
        else JObj [(''error'', JStr (api_error reason))]) 500"
| "namespaced_except namespace e =
     send_json_response (JObj [(''error'', JStr (str_exn e))]) 500"

definition handle_pods :: "cluster \<Rightarrow> string \<Rightarrow> exn + http_response" where
  "handle_pods k namespace =
     try_except
       (and_then (list_namespaced_pod k namespace) (\<lambda>pods.
        and_then (for_append pod_info pods) (\<lambda>pod_list.
          send_json_response
            (JObj [(''namespace'', JStr namespace),
                   (''pod_count'', JInt (int (length pod_list))),
                   (''pods'', JList pod_list)]) 200)))
       (namespaced_except namespace)"

definition deployment_entry :: "V1Deployment \<Rightarrow> exn + json" where
  "deployment_entry d =
     and_then (attr (dep_metadata d) ''name'') (\<lambda>m.
     and_then (attr (dep_spec d) ''replicas'') (\<lambda>sp.
     and_then (attr (dep_status d) ''ready_replicas'') (\<lambda>st.
       Inr (JObj [(''name'', json_str (meta_name m)),
                  (''replicas'', json_int (spec_replicas sp)),
                  (''ready_replicas'', JInt (or_zero (ready_replicas st))),
                  (''available_replicas'', JInt (or_zero (available_replicas st)))]))))"

definition handle_deployments :: "cluster \<Rightarrow> string \<Rightarrow> exn + http_response" where
  "handle_deployments k namespace =
     try_except
       (and_then (list_namespaced_deployment k namespace) (\<lambda>deployments.
        and_then (for_append deployment_entry deployments) (\<lambda>deployment_list.
          send_json_response
            (JObj [(''namespace'', JStr namespace),
                   (''deployment_count'', JInt (int (length deployment_list))),
                   (''deployments'', JList deployment_list)]) 200)))
       (namespaced_except namespace)"

text \<open>
  The request target after \<^verbatim>\<open>urlparse\<close> and \<^verbatim>\<open>parse_qs\<close>: the path and the query
  parameters, a dict from a name to the list of its values.
\<close>

record parsed_target =
  target_path :: string
  target_query :: "(string \<times> string list) list"

text \<open>\<^verbatim>\<open>query_params.get('namespace', ['default'])[0]\<close>\<close>

definition namespace_param :: "(string \<times> string list) list \<Rightarrow> exn + string" where
  "namespace_param query_params =
     (case (case map_of query_params ''namespace'' of None \<Rightarrow> [''default''] | Some vs \<Rightarrow> vs) of
        [] \<Rightarrow> Inl (IndexError ''list index out of range'')
      | v # _ \<Rightarrow> Inr v)"

text \<open>
  \<open>do_GET\<close> takes what parsing the request target gives: \<open>Inl e\<close> when \<^verbatim>\<open>urlparse\<close> or
  \<^verbatim>\<open>parse_qs\<close> raises \<open>e\<close> inside the \<^verbatim>\<open>try\<close>. The calls to the logger are not modelled.
\<close>

definition do_GET :: "environ \<Rightarrow> cluster \<Rightarrow> exn + parsed_target \<Rightarrow> http_response" where
  "do_GET env k target =
     (case and_then target (\<lambda>parsed.
             let path = target_path parsed; query_params = target_query parsed in
             if path = ''/health'' then handle_health k
             else if path = ''/cluster-info'' then handle_cluster_info env k
             else if path = ''/nodes'' then handle_nodes k
             else if path = ''/pods'' then
               and_then (namespace_param query_params) (\<lambda>namespace. handle_pods k namespace)
             else if path = ''/deployments'' then
               and_then (namespace_param query_params) (\<lambda>namespace. handle_deployments k namespace)
             else Inr (send_error 404 ''Not Found''))
      of Inl e \<Rightarrow> send_error 500 (str_exn e)
       | Inr r \<Rightarrow> r)"

section \<open>server-enhanced.py: reading a resource\<close>

text \<open>
  \<open>handle_read_resource\<close> returns \<^verbatim>\<open>json.dumps\<close> of a dict; the model returns the dict.
  \<open>uri\<close> is \<^verbatim>\<open>str(uri)\<close>. The call to the logger in the \<^verbatim>\<open>except\<close> clause is not
  modelled.
\<close>

definition handle_read_resource :: "environ \<Rightarrow> cluster \<Rightarrow> string \<Rightarrow> exn + json" where
  "handle_read_resource env k uri =
     try_except
       (if uri = ''resource://cluster-info'' then
          and_then (list_namespace k None) (\<lambda>namespaces.
          and_then (for_append namespace_name namespaces) (\<lambda>names.
            Inr (JObj [(''cluster_name'', JStr (getenv env ''CLUSTER_NAME'' ''mcp-eks-cluster'')),
                       (''region'', JStr (getenv env ''AWS_REGION'' ''us-west-2'')),
                       (''namespace_count'', JInt (int (length namespaces))),
                       (''server_version'', JStr ''1.28''),
                       (''namespaces'', JList names)])))
        else if uri = ''resource://node-info'' then
          and_then (list_node k) (\<lambda>nodes.
          and_then (for_append node_info_entry nodes) (\<lambda>node_info.
            Inr (JObj [(''node_count'', JInt (int (length nodes))),
                       (''nodes'', JList node_info)])))
        else if uri = ''resource://health'' then
          try_except
            (and_then (list_namespace k (Some 1)) (\<lambda>_.
               Inr (JObj [(''status'', JStr ''healthy''),
                          (''kubernetes_api'', JStr ''accessible''),
                          (''timestamp'', JStr ''2024-01-01T00:00:00Z'')])))
            (\<lambda>e. Inr (JObj [(''status'', JStr ''unhealthy''),
                             (''kubernetes_api'', JStr ''inaccessible''),
                             (''error'', JStr (str_exn e)),
                             (''timestamp'', JStr ''2024-01-01T00:00:00Z'')]))
        else Inl (ValueError (''Unknown resource: '' @ uri)))
       (\<lambda>e. Inr (JObj [(''error'', JStr (str_exn e))]))"

section \<open>server-claude-bridge.py: the node tool\<close>

text \<open>
  The bridge reads the HTTP API with \<^verbatim>\<open>requests\<close>. A response of \<^verbatim>\<open>requests.get\<close>
  is its status code, the message of the \<^verbatim>\<open>HTTPError\<close> that \<^verbatim>\<open>raise_for_status\<close>
  raises for it when the code is an error code, and what \<^verbatim>\<open>response.json()\<close> raises
  or returns.
\<close>

record requests_response =
  status_code :: nat
  http_error :: string
  json_result :: "exn + json"

definition raise_for_status :: "requests_response \<Rightarrow> exn + unit" where
  "raise_for_status response =
     (if 400 \<le> status_code response \<and> status_code response < 600
      then Inl (OtherException (http_error response)) else Inr ())"

definition call_mcp_api :: "(string \<Rightarrow> exn + requests_response) \<Rightarrow> string \<Rightarrow> string \<Rightarrow> json" where
  "call_mcp_api requests_get MCP_API_BASE endpoint =
     (case and_then (requests_get (MCP_API_BASE @ endpoint)) (\<lambda>response.
           and_then (raise_for_status response) (\<lambda>_. json_result response))
      of Inl e \<Rightarrow> JObj [(''error'', JStr (str_exn e))]
       | Inr d \<Rightarrow> d)"

text \<open>The dynamic operations of Python that the tool applies to the parsed JSON.\<close>

fun type_name :: "json \<Rightarrow> string" where
  "type_name JNull = ''NoneType''"
| "type_name (JBool b) = ''bool''"
| "type_name (JInt i) = ''int''"
| "type_name (JStr s) = ''str''"
| "type_name (JList xs) = ''list''"
| "type_name (JObj d) = ''dict''"

definition quoted :: "string \<Rightarrow> string" where
  "quoted s = [CHR 0x27] @ s @ [CHR 0x27]"

text \<open>\<^verbatim>\<open>key in v\<close> for a str \<open>key\<close>\<close>

fun py_in :: "string \<Rightarrow> json \<Rightarrow> exn + bool" where
  "py_in key (JObj d) = Inr (key \<in> set (map fst d))"
| "py_in key (JList xs) = Inr (JStr key \<in> set xs)"
| "py_in key (JStr s) = Inr (sublist key s)"
| "py_in key v = Inl (TypeError (''argument of type '' @ quoted (type_name v) @ '' is not iterable''))"

text \<open>\<^verbatim>\<open>v.get(key, default)\<close>; \<^verbatim>\<open>v.get(key)\<close> is \<open>py_get v key JNull\<close>\<close>

fun py_get :: "json \<Rightarrow> string \<Rightarrow> json \<Rightarrow> exn + json" where
  "py_get (JObj d) key dflt = Inr (case map_of d key of None \<Rightarrow> dflt | Some x \<Rightarrow> x)"
| "py_get v key dflt =
     Inl (AttributeError (quoted (type_name v) @ '' object has no attribute '' @ quoted ''get''))"

text \<open>
  \<^verbatim>\<open>v[key]\<close> for a str \<open>key\<close>: only a dict can be indexed by a str. The text of a
  \<^verbatim>\<open>KeyError\<close> is the quoted key.
\<close>

fun py_getitem :: "json \<Rightarrow> string \<Rightarrow> exn + json" where
  "py_getitem (JObj d) key =
     (case map_of d key of None \<Rightarrow> Inl (KeyError (quoted key)) | Some x \<Rightarrow> Inr x)"
| "py_getitem (JList xs) key =
     Inl (TypeError ''list indices must be integers or slices, not str'')"
| "py_getitem (JStr s) key =
     Inl (TypeError (''string indices must be integers, not '' @ quoted ''str''))"
| "py_getitem v key = Inl (TypeError (quoted (type_name v) @ '' object is not subscriptable''))"

text \<open>\<^verbatim>\<open>for n in v\<close>: a list gives its elements, a dict its keys, a str its characters.\<close>

fun py_iter :: "json \<Rightarrow> exn + json list" where
  "py_iter (JList xs) = Inr xs"
| "py_iter (JObj d) = Inr (map JStr (remdups (map fst d)))"
| "py_iter (JStr s) = Inr (map (\<lambda>c. JStr [c]) s)"
| "py_iter v = Inl (TypeError (quoted (type_name v) @ '' object is not iterable''))"

text \<open>\<^verbatim>\<open>[n for n in xs if p(n)]\<close> where the test may raise\<close>

fun filter_exn :: "('a \<Rightarrow> exn + bool) \<Rightarrow> 'a list \<Rightarrow> exn + 'a list" where
  "filter_exn p [] = Inr []"
| "filter_exn p (x # xs) =
     and_then (p x) (\<lambda>keep. and_then (filter_exn p xs) (\<lambda>ys. Inr (if keep then x # ys else ys)))"

text \<open>\<^verbatim>\<open>n.get('instance_type') != 't3.medium'\<close>\<close>

definition not_baseline :: "json \<Rightarrow> exn + bool" where
  "not_baseline n = and_then (py_get n ''instance_type'' JNull) (\<lambda>t. Inr (t \<noteq> JStr ''t3.medium''))"

text \<open>
  The branch \<^verbatim>\<open>get_node_info\<close> of \<open>handle_call_tool\<close> (lines 169 to 179):
  \<open>None\<close> when the tool answers with the error text, which it makes from
  \<^verbatim>\<open>nodes['error']\<close>, and otherwise the value of \<^verbatim>\<open>node_list\<close>, which the tool
  then counts and iterates over to format its answer.
  \<open>include_karpenter_only\<close> is the truth value of the argument of that name. The
  formatting of the text is not modelled.
\<close>

definition get_node_info_node_list ::
    "(string \<Rightarrow> exn + requests_response) \<Rightarrow> string \<Rightarrow> bool \<Rightarrow> exn + json option" where
  "get_node_info_node_list requests_get MCP_API_BASE include_karpenter_only =
     (let nodes = call_mcp_api requests_get MCP_API_BASE ''/nodes'' in
      and_then (py_in ''error'' nodes) (\<lambda>has_error.
        if has_error then and_then (py_getitem nodes ''error'') (\<lambda>error. Inr None)
        else
          and_then (py_get nodes ''nodes'' (JList [])) (\<lambda>node_list.
            if include_karpenter_only then
              and_then (py_iter node_list) (\<lambda>xs.
              and_then (filter_exn not_baseline xs) (\<lambda>ys. Inr (Some (JList ys))))
            else Inr (Some node_list))))"

section \<open>Properties of a response\<close>

text \<open>
  In a response dict \<open>d\<close>, the count field \<open>cnt\<close> equals the length of the item
  sequence \<open>items\<close>; a dict without the item sequence has no count either.
\<close>

definition count_matches :: "string \<Rightarrow> string \<Rightarrow> (string \<times> json) list \<Rightarrow> bool" where
  "count_matches cnt items d =
     (case map_of d items of
        None \<Rightarrow> map_of d cnt = None
      | Some v \<Rightarrow> (case v of JList xs \<Rightarrow> map_of d cnt = Some (JInt (int (length xs))) | _ \<Rightarrow> False))"

definition header :: "http_response \<Rightarrow> string \<Rightarrow> string option" where
  "header r name = map_of (resp_headers r) name"

text \<open>The headers that \<open>send_json_response\<close> sends.\<close>

definition json_headers :: "(string \<times> string) list" where
  "json_headers = [(''Content-type'', ''application/json''), (''Access-Control-Allow-Origin'', ''*'')]"

section \<open>A cluster to run the servers on\<close>

definition meta :: "string \<Rightarrow> (string \<times> string) list \<Rightarrow> V1ObjectMeta option" where
  "meta n ls = Some \<lparr>meta_name = Some n, meta_labels = Some ls\<rparr>"

definition ready_condition :: V1Condition where
  "ready_condition = \<lparr>cond_type = ''Ready'', cond_status = ''True''\<rparr>"

definition node_a :: V1Node where
  "node_a = \<lparr>node_metadata = meta ''node-a''
                 [(''node.kubernetes.io/instance-type'', ''t3.medium''),
                  (''topology.kubernetes.io/zone'', ''us-east-1a'')],
             node_status = Some \<lparr>node_conditions = Some [ready_condition]\<rparr>\<rparr>"

definition node_b :: V1Node where
  "node_b = \<lparr>node_metadata = meta ''node-b'' [(''node.kubernetes.io/instance-type'', ''c5.large'')],
             node_status = Some \<lparr>node_conditions = Some []\<rparr>\<rparr>"

text \<open>A node that has not reported any condition yet.\<close>

definition node_c :: V1Node where
  "node_c = \<lparr>node_metadata = meta ''node-c'' [],
             node_status = Some \<lparr>node_conditions = None\<rparr>\<rparr>"

definition pod_a :: V1Pod where
  "pod_a = \<lparr>pod_metadata = meta ''pod-a'' [],
            pod_status = Some \<lparr>pod_phase = Some ''Running'',
                               pod_conditions = Some [ready_condition],
                               container_statuses = Some [\<lparr>restart_count = Some 2\<rparr>,
                                                          \<lparr>restart_count = None\<rparr>]\<rparr>\<rparr>"

definition deployment_a :: V1Deployment where
  "deployment_a = \<lparr>dep_metadata = meta ''web'' [],
                   dep_spec = Some \<lparr>spec_replicas = Some 3\<rparr>,
                   dep_status = Some \<lparr>ready_replicas = Some 2, available_replicas = None\<rparr>\<rparr>"

text \<open>
  Two exceptions of the client, \<^verbatim>\<open>ApiException(status=404, reason="Not Found")\<close> and
  \<^verbatim>\<open>ApiException(status=403, reason="Forbidden")\<close>, with the text that
  \<^verbatim>\<open>ApiException.__str__\<close> gives them: the status in parentheses and the reason, each
  on a line of its own.
\<close>

definition not_found_text :: string where
  "not_found_text = ''(404)'' @ [CHR 0x0A] @ ''Reason: Not Found'' @ [CHR 0x0A]"

definition forbidden_text :: string where
  "forbidden_text = ''(403)'' @ [CHR 0x0A] @ ''Reason: Forbidden'' @ [CHR 0x0A]"

definition not_found :: exn where
  "not_found = ApiException (Some 404) (Some ''Not Found'') not_found_text"

definition forbidden :: exn where
  "forbidden = ApiException (Some 403) (Some ''Forbidden'') forbidden_text"

definition demo_cluster :: cluster where
  "demo_cluster =
     \<lparr>list_namespace = (\<lambda>limit. Inr [\<lparr>ns_metadata = meta ''default'' []\<rparr>,
                                     \<lparr>ns_metadata = meta ''kube-system'' []\<rparr>,
                                     \<lparr>ns_metadata = meta ''mcp-server'' []\<rparr>]),
      list_node = Inr [node_a, node_b],
      list_namespaced_pod = (\<lambda>ns. if ns = ''default'' then Inr []
                                   else if ns = ''mcp-server'' then Inr [pod_a]
                                   else if ns = ''secret'' then Inl forbidden
                                   else Inl not_found),
      list_namespaced_deployment = (\<lambda>ns. if ns = ''default'' then Inr [deployment_a]
                                          else if ns = ''secret'' then Inl forbidden
                                          else Inl not_found)\<rparr>"

text \<open>The same cluster with the API server out of reach, and one with a node without conditions.\<close>

definition down_cluster :: cluster where
  "down_cluster =
     \<lparr>list_namespace = (\<lambda>limit. Inl (OtherException ''Max retries exceeded'')),
      list_node = Inl (OtherException ''Max retries exceeded''),
      list_namespaced_pod = (\<lambda>ns. Inl (OtherException ''Max retries exceeded'')),
      list_namespaced_deployment = (\<lambda>ns. Inl (OtherException ''Max retries exceeded''))\<rparr>"

definition young_cluster :: cluster where
  "young_cluster = demo_cluster\<lparr>list_node := Inr [node_a, node_c]\<rparr>"

text \<open>The body that \<^verbatim>\<open>/nodes\<close> answers on \<open>demo_cluster\<close>, as the bridge parses it.\<close>

definition demo_nodes_body :: json where
  "demo_nodes_body =
     JObj [(''node_count'', JInt 2),
           (''nodes'', JList
             [JObj [(''name'', JStr ''node-a''), (''status'', JStr ''Ready''),
                    (''instance_type'', JStr ''t3.medium''), (''zone'', JStr ''us-east-1a'')],
              JObj [(''name'', JStr ''node-b''), (''status'', JStr ''NotReady''),
                    (''instance_type'', JStr ''c5.large''), (''zone'', JStr ''unknown'')]])]"

text \<open>An HTTP API that answers every request with that body.\<close>

definition demo_api :: "string \<Rightarrow> exn + requests_response" where
  "demo_api url = Inr \<lparr>status_code = 200, http_error = [], json_result = Inr demo_nodes_body\<rparr>"

text \<open>A pod that has not reported any condition or container status yet.\<close>

definition pod_c :: V1Pod where
  "pod_c = \<lparr>pod_metadata = meta ''pod-c'' [],
            pod_status = Some \<lparr>pod_phase = Some ''Pending'',
                               pod_conditions = None,
                               container_statuses = None\<rparr>\<rparr>"

section \<open>Running a computation\<close>

lemma and_then_Inl [simp]: "and_then (Inl e) f = Inl e"
  by (simp add: and_then_def)

lemma and_then_Inr [simp]: "and_then (Inr x) f = f x"
  by (simp add: and_then_def)

lemma try_except_Inl [simp]: "try_except (Inl e) h = h e"
  by (simp add: try_except_def)

lemma try_except_Inr [simp]: "try_except (Inr x) h = Inr x"
  by (simp add: try_except_def)

lemma for_append_length: "for_append f xs = Inr ys \<Longrightarrow> length ys = length xs"
proof (induction xs arbitrary: ys)
  case Nil
  then show ?case by simp
next
  case (Cons x xs)
  then show ?case
    by (auto simp: and_then_def split: sum.splits)
qed

lemma namespaced_except_returns:
  "\<exists>msg. namespaced_except ns e =
     Inr \<lparr>resp_status = 500,
          resp_headers = [(''Content-type'', ''application/json''),
                          (''Access-Control-Allow-Origin'', ''*'')],
          resp_body = JsonBody (JObj [(''error'', JStr msg)])\<rparr>"
  by (cases e) (auto simp: send_json_response_def)

subsection \<open>The shape of every response of a handler\<close>

lemma health_response:
  "\<exists>r. handle_health k = Inr r \<and> resp_headers r = json_headers"
  by (cases "list_namespace k (Some 1)")
     (simp_all add: handle_health_def send_json_response_def json_headers_def)

lemma nodes_response:
  "\<exists>r d. handle_nodes k = Inr r \<and> resp_headers r = json_headers \<and>
         resp_body r = JsonBody (JObj d) \<and> count_matches ''node_count'' ''nodes'' d"
proof (cases "list_node k")
  case (Inl e)
  then show ?thesis
    by (simp add: handle_nodes_def send_json_response_def count_matches_def json_headers_def)
next
  case (Inr nodes)
  show ?thesis
  proof (cases "for_append node_info_entry nodes")
    case (Inl e)
    with Inr show ?thesis
      by (simp add: handle_nodes_def send_json_response_def count_matches_def json_headers_def)
  next
    case inner: (Inr node_info)
    from for_append_length [OF inner] Inr inner show ?thesis
      by (simp add: handle_nodes_def send_json_response_def count_matches_def json_headers_def)
  qed
qed

lemma cluster_info_response:
  "\<exists>r d. handle_cluster_info env k = Inr r \<and> resp_headers r = json_headers \<and>
         resp_body r = JsonBody (JObj d) \<and> count_matches ''namespace_count'' ''namespaces'' d"
proof (cases "list_namespace k None")
  case (Inl e)
  then show ?thesis
    by (simp add: handle_cluster_info_def send_json_response_def count_matches_def json_headers_def)
next
  case (Inr namespaces)
  show ?thesis
  proof (cases "for_append namespace_name namespaces")
    case (Inl e)
    with Inr show ?thesis
      by (simp add: handle_cluster_info_def send_json_response_def count_matches_def
          json_headers_def)
  next
    case inner: (Inr names)
    from for_append_length [OF inner] Inr inner show ?thesis
      by (simp add: handle_cluster_info_def send_json_response_def count_matches_def
          json_headers_def)
  qed
qed

lemma except_response:
  "\<exists>r d. namespaced_except ns e = Inr r \<and> resp_headers r = json_headers \<and>
         resp_body r = JsonBody (JObj d) \<and>
         count_matches ''pod_count'' ''pods'' d \<and>
         count_matches ''deployment_count'' ''deployments'' d"
proof -
  obtain msg where "namespaced_except ns e =
     Inr \<lparr>resp_status = 500,
          resp_headers = [(''Content-type'', ''application/json''),
                          (''Access-Control-Allow-Origin'', ''*'')],
          resp_body = JsonBody (JObj [(''error'', JStr msg)])\<rparr>"
    using namespaced_except_returns by blast
  then show ?thesis
    by (simp add: count_matches_def json_headers_def)
qed

lemma pods_response:
  "\<exists>r d. handle_pods k ns = Inr r \<and> resp_headers r = json_headers \<and>
         resp_body r = JsonBody (JObj d) \<and> count_matches ''pod_count'' ''pods'' d"
proof (cases "list_namespaced_pod k ns")
  case (Inl e)
  with except_response [of ns e] show ?thesis
    by (auto simp: handle_pods_def)
next
  case (Inr pods)
  show ?thesis
  proof (cases "for_append pod_info pods")
    case (Inl e)
    with Inr except_response [of ns e] show ?thesis
      by (auto simp: handle_pods_def)
  next
    case inner: (Inr pod_list)
    with Inr show ?thesis
      by (simp add: handle_pods_def send_json_response_def count_matches_def json_headers_def)
  qed
qed

lemma deployments_response:
  "\<exists>r d. handle_deployments k ns = Inr r \<and> resp_headers r = json_headers \<and>
         resp_body r = JsonBody (JObj d) \<and>
         count_matches ''deployment_count'' ''deployments'' d"
proof (cases "list_namespaced_deployment k ns")
  case (Inl e)
  with except_response [of ns e] show ?thesis
    by (auto simp: handle_deployments_def)
next
  case (Inr deployments)
  show ?thesis
  proof (cases "for_append deployment_entry deployments")
    case (Inl e)
    with Inr except_response [of ns e] show ?thesis
      by (auto simp: handle_deployments_def)
  next
    case inner: (Inr deployment_list)
    with Inr show ?thesis
      by (simp add: handle_deployments_def send_json_response_def count_matches_def
          json_headers_def)
  qed
qed

text \<open>Every response that a handler sends carries the CORS header.\<close>

lemma handler_responses_carry_cors:
  "(\<exists>r. handle_health k = Inr r \<and> header r ''Access-Control-Allow-Origin'' = Some ''*'') \<and>
   (\<exists>r. handle_cluster_info env k = Inr r \<and> header r ''Access-Control-Allow-Origin'' = Some ''*'') \<and>
   (\<exists>r. handle_nodes k = Inr r \<and> header r ''Access-Control-Allow-Origin'' = Some ''*'') \<and>
   (\<exists>r. handle_pods k ns = Inr r \<and> header r ''Access-Control-Allow-Origin'' = Some ''*'') \<and>
   (\<exists>r. handle_deployments k ns = Inr r \<and> header r ''Access-Control-Allow-Origin'' = Some ''*'')"
proof -
  have cors: "header r ''Access-Control-Allow-Origin'' = Some ''*''"
    if "resp_headers r = json_headers" for r
    using that by (simp add: header_def json_headers_def)
  from health_response [of k] cors have 1: "\<exists>r. handle_health k = Inr r \<and>
      header r ''Access-Control-Allow-Origin'' = Some ''*''"
    by blast
  from cluster_info_response [of env k] cors have 2: "\<exists>r. handle_cluster_info env k = Inr r \<and>
      header r ''Access-Control-Allow-Origin'' = Some ''*''"
    by blast
  from nodes_response [of k] cors have 3: "\<exists>r. handle_nodes k = Inr r \<and>
      header r ''Access-Control-Allow-Origin'' = Some ''*''"
    by blast
  from pods_response [of k ns] cors have 4: "\<exists>r. handle_pods k ns = Inr r \<and>
      header r ''Access-Control-Allow-Origin'' = Some ''*''"
    by blast
  from deployments_response [of k ns] cors have 5: "\<exists>r. handle_deployments k ns = Inr r \<and>
      header r ''Access-Control-Allow-Origin'' = Some ''*''"
    by blast
  from 1 2 3 4 5 show ?thesis
    by simp
qed

subsection \<open>The listing of a handler whose list call and entries succeed\<close>

lemma nodes_listing:
  assumes "list_node k = Inr nodes" and "for_append node_info_entry nodes = Inr node_info"
  shows "handle_nodes k =
     Inr \<lparr>resp_status = 200, resp_headers = json_headers,
          resp_body = JsonBody (JObj [(''node_count'', JInt (int (length node_info))),
                                      (''nodes'', JList node_info)])\<rparr>"
  using assms for_append_length [OF assms(2)]
  by (simp add: handle_nodes_def send_json_response_def json_headers_def)

lemma cluster_info_listing:
  assumes "list_namespace k None = Inr namespaces"
    and "for_append namespace_name namespaces = Inr names"
  shows "handle_cluster_info env k =
     Inr \<lparr>resp_status = 200, resp_headers = json_headers,
          resp_body = JsonBody
            (JObj [(''cluster_name'', JStr (getenv env ''CLUSTER_NAME'' ''mcp-eks-cluster'')),
                   (''region'', JStr (getenv env ''AWS_REGION'' ''us-east-1'')),
                   (''namespace_count'', JInt (int (length names))),
                   (''namespaces'', JList names)])\<rparr>"
  using assms for_append_length [OF assms(2)]
  by (simp add: handle_cluster_info_def send_json_response_def json_headers_def)

lemma pods_listing:
  assumes "list_namespaced_pod k ns = Inr pods" and "for_append pod_info pods = Inr pod_list"
  shows "handle_pods k ns =
     Inr \<lparr>resp_status = 200, resp_headers = json_headers,
          resp_body = JsonBody (JObj [(''namespace'', JStr ns),
                                      (''pod_count'', JInt (int (length pods))),
                                      (''pods'', JList pod_list)])\<rparr>"
  using assms for_append_length [OF assms(2)]
  by (simp add: handle_pods_def send_json_response_def json_headers_def)

lemma deployments_listing:
  assumes "list_namespaced_deployment k ns = Inr deployments"
    and "for_append deployment_entry deployments = Inr deployment_list"
  shows "handle_deployments k ns =
     Inr \<lparr>resp_status = 200, resp_headers = json_headers,
          resp_body = JsonBody (JObj [(''namespace'', JStr ns),
                                      (''deployment_count'', JInt (int (length deployments))),
                                      (''deployments'', JList deployment_list)])\<rparr>"
  using assms for_append_length [OF assms(2)]
  by (simp add: handle_deployments_def send_json_response_def json_headers_def)

subsection \<open>The entries of the nodes of the example cluster\<close>

lemma node_a_entry:
  "node_info_entry node_a =
     Inr (JObj [(''name'', JStr ''node-a''), (''status'', JStr ''Ready''),
                (''instance_type'', JStr ''t3.medium''), (''zone'', JStr ''us-east-1a'')])"
  by (simp add: node_info_entry_def node_a_def meta_def attr_def iter_def
      labels_get_def json_str_def is_ready_def ready_condition_def)

lemma node_b_entry:
  "node_info_entry node_b =
     Inr (JObj [(''name'', JStr ''node-b''), (''status'', JStr ''NotReady''),
                (''instance_type'', JStr ''c5.large''), (''zone'', JStr ''unknown'')])"
  by (simp add: node_info_entry_def node_b_def meta_def attr_def iter_def
      labels_get_def json_str_def)

subsection \<open>Building the entry of a node\<close>

text \<open>
  With the metadata, the labels, the status and the conditions present, the entry is
  built and a missing label is reported as \<open>unknown\<close>.
\<close>

lemma node_info_entry_defaults:
  assumes "node_metadata node = Some m" and "meta_labels m = Some ls"
    and "node_status node = Some st" and "node_conditions st = Some conds"
  shows "node_info_entry node =
     Inr (JObj [(''name'', json_str (meta_name m)),
                (''status'', JStr (if list_ex is_ready conds then ''Ready'' else ''NotReady'')),
                (''instance_type'', JStr (case map_of ls ''node.kubernetes.io/instance-type'' of
                                            None \<Rightarrow> ''unknown'' | Some v \<Rightarrow> v)),
                (''zone'', JStr (case map_of ls ''topology.kubernetes.io/zone'' of
                                   None \<Rightarrow> ''unknown'' | Some v \<Rightarrow> v))])"
  using assms by (simp add: node_info_entry_def attr_def iter_def labels_get_def)

lemma node_info_entry_no_conditions:
  assumes "node_metadata node = Some m" and "node_status node = Some st"
    and "node_conditions st = None"
  shows "node_info_entry node = Inl (TypeError none_not_iterable)"
  using assms by (simp add: node_info_entry_def attr_def iter_def)

lemma node_info_entry_no_labels:
  assumes "node_metadata node = Some m" and "meta_labels m = None"
    and "node_status node = Some st" and "node_conditions st = Some conds"
  shows "node_info_entry node = Inl (AttributeError (none_has_no_attribute ''get''))"
  using assms by (simp add: node_info_entry_def attr_def iter_def labels_get_def)

subsection \<open>The filter of the node tool\<close>

lemma filter_exn_Inr: "filter_exn p xs = Inr ys \<Longrightarrow> ys = filter (\<lambda>x. p x = Inr True) xs"
proof (induction xs arbitrary: ys)
  case Nil
  then show ?case by simp
next
  case (Cons x xs)
  then show ?case
    by (auto simp: and_then_def split: sum.splits if_splits)
qed

lemma filter_exn_total:
  "\<forall>x\<in>set xs. \<exists>b. p x = Inr b \<Longrightarrow> filter_exn p xs = Inr (filter (\<lambda>x. p x = Inr True) xs)"
  by (induction xs) auto

text \<open>
  The error branch of the node tool: an API that cannot be reached gives the error
  text, and a body that is a list holding the str \<open>error\<close> makes the tool raise.
\<close>

lemma unreachable_api_gives_error_text:
  "get_node_info_node_list (\<lambda>url. Inl (OtherException msg)) base only = Inr None"
  by (simp add: get_node_info_node_list_def call_mcp_api_def)

lemma error_in_list_body_raises:
  "get_node_info_node_list
     (\<lambda>url. Inr \<lparr>status_code = 200, http_error = [], json_result = Inr (JList [JStr ''error''])\<rparr>)
     base only =
   Inl (TypeError ''list indices must be integers or slices, not str'')"
  by (simp add: get_node_info_node_list_def call_mcp_api_def raise_for_status_def)

lemma not_baseline_True:
  "not_baseline n = Inr True \<Longrightarrow> py_get n ''instance_type'' JNull \<noteq> Inr (JStr ''t3.medium'')"
  by (auto simp: not_baseline_def and_then_def split: sum.splits)

lemma not_baseline_dict:
  "not_baseline (JObj d) = Inr (py_get (JObj d) ''instance_type'' JNull \<noteq> Inr (JStr ''t3.medium''))"
  by (simp add: not_baseline_def split: option.splits)

section \<open>The claims\<close>

text \<open>
  Claim C1. In every response of the node, pod, deployment and cluster-info handlers the
  count field equals the length of the item sequence, whatever raw records the cluster
  client returned: \<open>node_count\<close> and \<open>nodes\<close>, \<open>pod_count\<close> and \<open>pods\<close>,
  \<open>deployment_count\<close> and \<open>deployments\<close>, \<open>namespace_count\<close> and \<open>namespaces\<close>.
  (An error response carries neither field.)
\<close>

theorem listing_counts:
  "(\<exists>r d. handle_nodes k = Inr r \<and> resp_body r = JsonBody (JObj d) \<and>
           count_matches ''node_count'' ''nodes'' d) \<and>
   (\<exists>r d. handle_pods k ns = Inr r \<and> resp_body r = JsonBody (JObj d) \<and>
           count_matches ''pod_count'' ''pods'' d) \<and>
   (\<exists>r d. handle_deployments k ns = Inr r \<and> resp_body r = JsonBody (JObj d) \<and>
           count_matches ''deployment_count'' ''deployments'' d) \<and>
   (\<exists>r d. handle_cluster_info env k = Inr r \<and> resp_body r = JsonBody (JObj d) \<and>
           count_matches ''namespace_count'' ''namespaces'' d)"
  using nodes_response [of k] pods_response [of k ns] deployments_response [of k ns]
    cluster_info_response [of env k]
  by blast

theorem listing_counts_witness:
  "\<exists>r d xs. handle_nodes demo_cluster = Inr r \<and> resp_body r = JsonBody (JObj d) \<and>
     count_matches ''node_count'' ''nodes'' d \<and>
     map_of d ''node_count'' = Some (JInt 2) \<and> map_of d ''nodes'' = Some (JList xs) \<and> length xs = 2"
proof -
  have run: "handle_nodes demo_cluster =
    Inr \<lparr>resp_status = 200,
         resp_headers = [(''Content-type'', ''application/json''),
                         (''Access-Control-Allow-Origin'', ''*'')],
         resp_body = JsonBody (JObj [(''node_count'', JInt 2),
           (''nodes'', JList
             [JObj [(''name'', JStr ''node-a''), (''status'', JStr ''Ready''),
                (''instance_type'', JStr ''t3.medium''), (''zone'', JStr ''us-east-1a'')],
              JObj [(''name'', JStr ''node-b''), (''status'', JStr ''NotReady''),
                (''instance_type'', JStr ''c5.large''), (''zone'', JStr ''unknown'')]])])\<rparr>"
    by (simp add: handle_nodes_def demo_cluster_def node_a_entry node_b_entry send_json_response_def)
  from listing_counts [of demo_cluster "''default''" Map.empty]
  obtain r d where "handle_nodes demo_cluster = Inr r" "resp_body r = JsonBody (JObj d)"
    "count_matches ''node_count'' ''nodes'' d"
    by blast
  with run show ?thesis
    by auto
qed

text \<open>
  Claim C2. The health query never raises: whatever the probe \<^verbatim>\<open>list_namespace(limit=1)\<close>
  does, \<open>handle_health\<close> returns a response whose status field is \<open>healthy\<close> exactly
  when the probe returned and \<open>unhealthy\<close> exactly when it raised, in which case the
  error field is the text of the exception. The health resource of the enhanced
  server behaves the same way.
\<close>

theorem health_never_raises:
  "(\<exists>r d. handle_health k = Inr r \<and> resp_body r = JsonBody (JObj d) \<and>
      (map_of d ''status'' = Some (JStr ''healthy'')) = (\<exists>x. list_namespace k (Some 1) = Inr x) \<and>
      (map_of d ''status'' = Some (JStr ''unhealthy'')) = (\<exists>e. list_namespace k (Some 1) = Inl e) \<and>
      (\<forall>e. list_namespace k (Some 1) = Inl e \<longrightarrow> map_of d ''error'' = Some (JStr (str_exn e)))) \<and>
   (\<exists>d. handle_read_resource env k ''resource://health'' = Inr (JObj d) \<and>
      (map_of d ''status'' = Some (JStr ''healthy'')) = (\<exists>x. list_namespace k (Some 1) = Inr x) \<and>
      (map_of d ''status'' = Some (JStr ''unhealthy'')) = (\<exists>e. list_namespace k (Some 1) = Inl e) \<and>
      (\<forall>e. list_namespace k (Some 1) = Inl e \<longrightarrow> map_of d ''error'' = Some (JStr (str_exn e))))"
proof (cases "list_namespace k (Some 1)")
  case (Inl e)
  then show ?thesis
    by (simp add: handle_health_def handle_read_resource_def send_json_response_def)
next
  case (Inr x)
  then show ?thesis
    by (simp add: handle_health_def handle_read_resource_def send_json_response_def)
qed

theorem health_never_raises_witness:
  "(\<exists>e. list_namespace down_cluster (Some 1) = Inl e) \<and>
   (\<exists>x. list_namespace demo_cluster (Some 1) = Inr x) \<and>
   handle_health down_cluster =
     Inr \<lparr>resp_status = 500,
          resp_headers = [(''Content-type'', ''application/json''),
                          (''Access-Control-Allow-Origin'', ''*'')],
          resp_body = JsonBody (JObj [(''status'', JStr ''unhealthy''),
                                      (''kubernetes_api'', JStr ''inaccessible''),
                                      (''error'', JStr ''Max retries exceeded'')])\<rparr> \<and>
   (\<exists>r d. handle_health demo_cluster = Inr r \<and> resp_body r = JsonBody (JObj d) \<and>
           map_of d ''status'' = Some (JStr ''healthy''))"
proof -
  have down: "list_namespace down_cluster (Some 1) = Inl (OtherException ''Max retries exceeded'')"
    by (simp add: down_cluster_def)
  have up: "\<exists>x. list_namespace demo_cluster (Some 1) = Inr x"
    by (simp add: demo_cluster_def)
  have run: "handle_health down_cluster =
     Inr \<lparr>resp_status = 500,
          resp_headers = [(''Content-type'', ''application/json''),
                          (''Access-Control-Allow-Origin'', ''*'')],
          resp_body = JsonBody (JObj [(''status'', JStr ''unhealthy''),
                                      (''kubernetes_api'', JStr ''inaccessible''),
                                      (''error'', JStr ''Max retries exceeded'')])\<rparr>"
    by (simp add: handle_health_def down send_json_response_def)
  from health_never_raises [of demo_cluster Map.empty] up
  have "\<exists>r d. handle_health demo_cluster = Inr r \<and> resp_body r = JsonBody (JObj d) \<and>
           map_of d ''status'' = Some (JStr ''healthy'')"
    by blast
  with down up run show ?thesis
    by simp
qed

text \<open>
  Claim C3. When the API answers a pod or deployment listing with status 404 (the
  namespace does not exist), the handler returns the not-found error body, which
  names the namespace, and this body is never the generic \<open>API error\<close> body; every
  other \<^verbatim>\<open>ApiException\<close> gets the generic body with its reason.
\<close>

theorem missing_namespace_is_not_found:
  "(list_namespaced_pod k ns = Inl (ApiException (Some 404) reason msg) \<longrightarrow>
      (\<exists>r. handle_pods k ns = Inr r \<and>
           resp_body r = JsonBody (JObj [(''error'',
              JStr (''Namespace '' @ [CHR 0x27] @ ns @ [CHR 0x27] @ '' not found''))]) \<and>
           (\<forall>other. resp_body r \<noteq> JsonBody (JObj [(''error'', JStr (''API error: '' @ str_opt other))])))) \<and>
   (list_namespaced_deployment k ns = Inl (ApiException (Some 404) reason msg) \<longrightarrow>
      (\<exists>r. handle_deployments k ns = Inr r \<and>
           resp_body r = JsonBody (JObj [(''error'',
              JStr (''Namespace '' @ [CHR 0x27] @ ns @ [CHR 0x27] @ '' not found''))]) \<and>
           (\<forall>other. resp_body r \<noteq> JsonBody (JObj [(''error'', JStr (''API error: '' @ str_opt other))])))) \<and>
   (list_namespaced_pod k ns = Inl (ApiException status reason msg) \<and> status \<noteq> Some 404 \<longrightarrow>
      (\<exists>r. handle_pods k ns = Inr r \<and>
           resp_body r = JsonBody (JObj [(''error'', JStr (''API error: '' @ str_opt reason))]))) \<and>
   (list_namespaced_deployment k ns = Inl (ApiException status reason msg) \<and> status \<noteq> Some 404 \<longrightarrow>
      (\<exists>r. handle_deployments k ns = Inr r \<and>
           resp_body r = JsonBody (JObj [(''error'', JStr (''API error: '' @ str_opt reason))])))"
  by (simp add: handle_pods_def handle_deployments_def send_json_response_def
      namespace_not_found_def api_error_def)

theorem missing_namespace_is_not_found_witness:
  "list_namespaced_pod demo_cluster ''ghost'' = Inl (ApiException (Some 404) (Some ''Not Found'') not_found_text) \<and>
   list_namespaced_deployment demo_cluster ''secret'' = Inl (ApiException (Some 403) (Some ''Forbidden'') forbidden_text) \<and>
   (\<exists>r. handle_pods demo_cluster ''ghost'' = Inr r \<and>
        resp_body r = JsonBody (JObj [(''error'', JStr ''Namespace 'ghost' not found'')])) \<and>
   (\<exists>r. handle_deployments demo_cluster ''secret'' = Inr r \<and>
        resp_body r = JsonBody (JObj [(''error'', JStr ''API error: Forbidden'')]))"
proof -
  have ghost: "list_namespaced_pod demo_cluster ''ghost'' =
      Inl (ApiException (Some 404) (Some ''Not Found'') not_found_text)"
    by (simp add: demo_cluster_def not_found_def)
  have secret: "list_namespaced_deployment demo_cluster ''secret'' =
      Inl (ApiException (Some 403) (Some ''Forbidden'') forbidden_text)"
    by (simp add: demo_cluster_def forbidden_def)
  have neq: "Some (403::int) \<noteq> Some 404"
    by simp
  note at_ghost = missing_namespace_is_not_found [of demo_cluster "''ghost''" "Some ''Not Found''"
      not_found_text "Some 404"]
  note at_secret = missing_namespace_is_not_found [of demo_cluster "''secret''" "Some ''Forbidden''"
      forbidden_text "Some 403"]
  from at_ghost [THEN conjunct1] ghost have a: "\<exists>r. handle_pods demo_cluster ''ghost'' = Inr r \<and>
        resp_body r = JsonBody (JObj [(''error'', JStr ''Namespace 'ghost' not found'')])"
    by auto
  from at_secret [THEN conjunct2, THEN conjunct2, THEN conjunct2] secret neq have b: "\<exists>r. handle_deployments demo_cluster ''secret'' = Inr r \<and>
        resp_body r = JsonBody (JObj [(''error'', JStr ''API error: Forbidden'')])"
    by (auto simp: str_opt_def)
  from ghost secret a b show ?thesis
    by blast
qed

text \<open>
  Claim C4. Building the entry of a node raises when the status of the node has no
  conditions: \<open>node_c\<close>, whose \<^verbatim>\<open>status.conditions\<close> is \<^verbatim>\<open>None\<close>, makes
  \<open>node_info_entry\<close> raise a \<^verbatim>\<open>TypeError\<close>, and the whole node listing of a cluster
  holding it becomes a 500 error answer. The pod handler guards the same field with
  \<^verbatim>\<open>or []\<close> and builds the entry of \<open>pod_c\<close>, a pod without conditions.
\<close>

theorem node_without_conditions_raises:
  "node_info_entry node_c = Inl (TypeError none_not_iterable) \<and>
   handle_nodes young_cluster =
     Inr \<lparr>resp_status = 500,
          resp_headers = [(''Content-type'', ''application/json''),
                          (''Access-Control-Allow-Origin'', ''*'')],
          resp_body = JsonBody (JObj [(''error'', JStr none_not_iterable)])\<rparr> \<and>
   pod_info pod_c =
     Inr (JObj [(''name'', JStr ''pod-c''), (''phase'', JStr ''Pending''),
                (''ready'', JInt 0), (''restart_count'', JInt 0)])"
proof -
  have c: "node_info_entry node_c = Inl (TypeError none_not_iterable)"
    by (simp add: node_info_entry_no_conditions [where st = "\<lparr>node_conditions = None\<rparr>"]
        node_c_def meta_def)
  have a: "node_info_entry node_a =
     Inr (JObj [(''name'', JStr ''node-a''), (''status'', JStr ''Ready''),
                (''instance_type'', JStr ''t3.medium''), (''zone'', JStr ''us-east-1a'')])"
    by (simp add: node_info_entry_def node_a_def meta_def attr_def iter_def
      labels_get_def json_str_def is_ready_def ready_condition_def)
  have nodes: "handle_nodes young_cluster =
     Inr \<lparr>resp_status = 500,
          resp_headers = [(''Content-type'', ''application/json''),
                          (''Access-Control-Allow-Origin'', ''*'')],
          resp_body = JsonBody (JObj [(''error'', JStr none_not_iterable)])\<rparr>"
    by (simp add: handle_nodes_def young_cluster_def a c send_json_response_def)
  have pod: "pod_info pod_c =
     Inr (JObj [(''name'', JStr ''pod-c''), (''phase'', JStr ''Pending''),
                (''ready'', JInt 0), (''restart_count'', JInt 0)])"
    by (simp add: pod_info_def pod_c_def meta_def attr_def json_str_def or_empty_def)
  from c nodes pod show ?thesis
    by simp
qed

text \<open>
  Claim C5. In the node tool of the bridge, the items answered with
  \<^verbatim>\<open>include_karpenter_only\<close> set are a subsequence, hence a subset, of the items
  answered without it, and none of them has the instance type \<open>t3.medium\<close>, the
  baseline type that the code compares with. Where the unfiltered items are all
  dicts, the filtered query returns exactly those whose instance type is not the
  baseline.
\<close>

theorem managed_only_is_filtered_subset:
  "(get_node_info_node_list api base True = Inr (Some filtered) \<longrightarrow>
      (\<exists>node_list xs ys.
          get_node_info_node_list api base False = Inr (Some node_list) \<and>
          py_iter node_list = Inr xs \<and> filtered = JList ys \<and>
          subseq ys xs \<and> set ys \<subseteq> set xs \<and>
          (\<forall>n\<in>set ys. py_get n ''instance_type'' JNull \<noteq> Inr (JStr ''t3.medium'')))) \<and>
   (get_node_info_node_list api base False = Inr (Some (JList xs)) \<and>
    (\<forall>n\<in>set xs. \<exists>d. n = JObj d) \<longrightarrow>
      get_node_info_node_list api base True =
        Inr (Some (JList (filter (\<lambda>n. py_get n ''instance_type'' JNull \<noteq> Inr (JStr ''t3.medium'')) xs))))"
proof (intro conjI impI)
  let ?nodes = "call_mcp_api api base ''/nodes''"
  assume run: "get_node_info_node_list api base True = Inr (Some filtered)"
  then obtain node_list xs ys where
    no_error: "py_in ''error'' ?nodes = Inr False" and
    got: "py_get ?nodes ''nodes'' (JList []) = Inr node_list" and
    it: "py_iter node_list = Inr xs" and
    fl: "filter_exn not_baseline xs = Inr ys" and
    res: "filtered = JList ys"
    by (auto simp: get_node_info_node_list_def Let_def and_then_def split: sum.splits if_splits)
  from filter_exn_Inr [OF fl] have ys: "ys = filter (\<lambda>n. not_baseline n = Inr True) xs" .
  then have sub: "subseq ys xs" and subset: "set ys \<subseteq> set xs"
    by auto
  from ys have types: "\<forall>n\<in>set ys. py_get n ''instance_type'' JNull \<noteq> Inr (JStr ''t3.medium'')"
    using not_baseline_True by auto
  from no_error got have "get_node_info_node_list api base False = Inr (Some node_list)"
    by (simp add: get_node_info_node_list_def Let_def)
  with it res sub subset types
  show "\<exists>node_list xs ys.
          get_node_info_node_list api base False = Inr (Some node_list) \<and>
          py_iter node_list = Inr xs \<and> filtered = JList ys \<and>
          subseq ys xs \<and> set ys \<subseteq> set xs \<and>
          (\<forall>n\<in>set ys. py_get n ''instance_type'' JNull \<noteq> Inr (JStr ''t3.medium''))"
    by blast
next
  let ?nodes = "call_mcp_api api base ''/nodes''"
  assume "get_node_info_node_list api base False = Inr (Some (JList xs)) \<and>
    (\<forall>n\<in>set xs. \<exists>d. n = JObj d)"
  then have run: "get_node_info_node_list api base False = Inr (Some (JList xs))"
    and dicts: "\<forall>n\<in>set xs. \<exists>d. n = JObj d"
    by auto
  from run have no_error: "py_in ''error'' ?nodes = Inr False"
    and got: "py_get ?nodes ''nodes'' (JList []) = Inr (JList xs)"
    by (auto simp: get_node_info_node_list_def Let_def and_then_def split: sum.splits if_splits)
  from dicts have total: "\<forall>n\<in>set xs. \<exists>b. not_baseline n = Inr b"
    by (auto simp: not_baseline_dict)
  from dicts have same: "filter (\<lambda>n. not_baseline n = Inr True) xs =
      filter (\<lambda>n. py_get n ''instance_type'' JNull \<noteq> Inr (JStr ''t3.medium'')) xs"
    by (intro filter_cong) (auto simp: not_baseline_dict)
  from filter_exn_total [OF total] same no_error got
  show "get_node_info_node_list api base True =
        Inr (Some (JList (filter (\<lambda>n. py_get n ''instance_type'' JNull \<noteq> Inr (JStr ''t3.medium'')) xs)))"
    by (simp add: get_node_info_node_list_def Let_def)
qed

theorem managed_only_is_filtered_subset_witness:
  "get_node_info_node_list demo_api ''http://api'' False =
     Inr (Some (JList
       [JObj [(''name'', JStr ''node-a''), (''status'', JStr ''Ready''),
              (''instance_type'', JStr ''t3.medium''), (''zone'', JStr ''us-east-1a'')],
        JObj [(''name'', JStr ''node-b''), (''status'', JStr ''NotReady''),
              (''instance_type'', JStr ''c5.large''), (''zone'', JStr ''unknown'')]])) \<and>
   get_node_info_node_list demo_api ''http://api'' True =
     Inr (Some (JList
       [JObj [(''name'', JStr ''node-b''), (''status'', JStr ''NotReady''),
              (''instance_type'', JStr ''c5.large''), (''zone'', JStr ''unknown'')]]))"
proof -
  let ?a = "JObj [(''name'', JStr ''node-a''), (''status'', JStr ''Ready''),
              (''instance_type'', JStr ''t3.medium''), (''zone'', JStr ''us-east-1a'')]"
  let ?b = "JObj [(''name'', JStr ''node-b''), (''status'', JStr ''NotReady''),
              (''instance_type'', JStr ''c5.large''), (''zone'', JStr ''unknown'')]"
  have all: "get_node_info_node_list demo_api ''http://api'' False = Inr (Some (JList [?a, ?b]))"
    by (simp add: get_node_info_node_list_def Let_def call_mcp_api_def demo_api_def raise_for_status_def
        demo_nodes_body_def)
  have dicts: "\<forall>n\<in>set [?a, ?b]. \<exists>d. n = JObj d"
    by simp
  from managed_only_is_filtered_subset [of demo_api "''http://api''" _ "[?a, ?b]", THEN conjunct2]
    all dicts
  have "get_node_info_node_list demo_api ''http://api'' True =
        Inr (Some (JList (filter (\<lambda>n. py_get n ''instance_type'' JNull \<noteq> Inr (JStr ''t3.medium'')) [?a, ?b])))"
    by blast
  with all show ?thesis
    by simp
qed

text \<open>
  Claim C6. Over HTTP, a pod or deployment query for a namespace that does not exist
  (the API answers 404) is answered with status 500, not 404, and an error body
  naming the namespace; 500 is also the status of the answer when the listing call
  of any query, or the probe of the health query, raises any other exception.
\<close>

theorem missing_namespace_answers_500:
  assumes "namespace_param q = Inr ns"
  shows "(list_namespaced_pod k ns = Inl (ApiException (Some 404) reason msg) \<longrightarrow>
            do_GET env k (Inr \<lparr>target_path = ''/pods'', target_query = q\<rparr>) =
              \<lparr>resp_status = 500,
               resp_headers = [(''Content-type'', ''application/json''),
                               (''Access-Control-Allow-Origin'', ''*'')],
               resp_body = JsonBody (JObj [(''error'',
                  JStr (''Namespace '' @ [CHR 0x27] @ ns @ [CHR 0x27] @ '' not found''))])\<rparr>) \<and>
         (list_namespaced_deployment k ns = Inl (ApiException (Some 404) reason msg) \<longrightarrow>
            do_GET env k (Inr \<lparr>target_path = ''/deployments'', target_query = q\<rparr>) =
              \<lparr>resp_status = 500,
               resp_headers = [(''Content-type'', ''application/json''),
                               (''Access-Control-Allow-Origin'', ''*'')],
               resp_body = JsonBody (JObj [(''error'',
                  JStr (''Namespace '' @ [CHR 0x27] @ ns @ [CHR 0x27] @ '' not found''))])\<rparr>) \<and>
         (\<forall>e. list_namespaced_pod k ns = Inl e \<longrightarrow>
            resp_status (do_GET env k (Inr \<lparr>target_path = ''/pods'', target_query = q\<rparr>)) = 500) \<and>
         (\<forall>e. list_namespaced_deployment k ns = Inl e \<longrightarrow>
            resp_status (do_GET env k (Inr \<lparr>target_path = ''/deployments'', target_query = q\<rparr>)) = 500) \<and>
         (\<forall>e. list_node k = Inl e \<longrightarrow>
            resp_status (do_GET env k (Inr \<lparr>target_path = ''/nodes'', target_query = q\<rparr>)) = 500) \<and>
         (\<forall>e. list_namespace k None = Inl e \<longrightarrow>
            resp_status (do_GET env k (Inr \<lparr>target_path = ''/cluster-info'', target_query = q\<rparr>)) = 500) \<and>
         (\<forall>e. list_namespace k (Some 1) = Inl e \<longrightarrow>
            resp_status (do_GET env k (Inr \<lparr>target_path = ''/health'', target_query = q\<rparr>)) = 500)"
proof -
  have status: "resp_status (case namespaced_except ns e of Inl e' \<Rightarrow> send_error 500 (str_exn e') | Inr r \<Rightarrow> r) = 500" for e
    using namespaced_except_returns [of ns e] by auto
  show ?thesis
    using assms status
    by (simp add: do_GET_def handle_pods_def handle_deployments_def handle_nodes_def
        handle_cluster_info_def handle_health_def send_json_response_def
        namespace_not_found_def)
qed

theorem missing_namespace_answers_500_witness:
  "namespace_param [(''namespace'', [''ghost''])] = Inr ''ghost'' \<and>
   list_namespaced_pod demo_cluster ''ghost'' = Inl (ApiException (Some 404) (Some ''Not Found'') not_found_text) \<and>
   do_GET Map.empty demo_cluster (Inr \<lparr>target_path = ''/pods'', target_query = [(''namespace'', [''ghost''])]\<rparr>) =
     \<lparr>resp_status = 500,
      resp_headers = [(''Content-type'', ''application/json''),
                      (''Access-Control-Allow-Origin'', ''*'')],
      resp_body = JsonBody (JObj [(''error'', JStr ''Namespace 'ghost' not found'')])\<rparr>"
proof -
  have param: "namespace_param [(''namespace'', [''ghost''])] = Inr ''ghost''"
    by (simp add: namespace_param_def)
  have ghost: "list_namespaced_pod demo_cluster ''ghost'' =
      Inl (ApiException (Some 404) (Some ''Not Found'') not_found_text)"
    by (simp add: demo_cluster_def not_found_def)
  from missing_namespace_answers_500 [OF param, of demo_cluster "Some ''Not Found''"
      not_found_text Map.empty, THEN conjunct1] ghost param
  show ?thesis
    by simp
qed

text \<open>
  Claim C7. When the namespace exists and holds no pod (the client returns an empty
  list), the pod query succeeds: the response has status 200, \<open>pod_count\<close> 0, an
  empty \<open>pods\<close> sequence and the requested namespace name.
\<close>

theorem zero_pods:
  assumes "list_namespaced_pod k ns = Inr []"
  shows "handle_pods k ns =
           Inr \<lparr>resp_status = 200,
                resp_headers = [(''Content-type'', ''application/json''),
                                (''Access-Control-Allow-Origin'', ''*'')],
                resp_body = JsonBody (JObj [(''namespace'', JStr ns),
                                            (''pod_count'', JInt 0),
                                            (''pods'', JList [])])\<rparr>"
  using assms by (simp add: handle_pods_def send_json_response_def)

theorem zero_pods_witness:
  "list_namespaced_pod demo_cluster ''default'' = Inr [] \<and>
   do_GET Map.empty demo_cluster (Inr \<lparr>target_path = ''/pods'', target_query = []\<rparr>) =
     \<lparr>resp_status = 200,
      resp_headers = [(''Content-type'', ''application/json''),
                      (''Access-Control-Allow-Origin'', ''*'')],
      resp_body = JsonBody (JObj [(''namespace'', JStr ''default''),
                                  (''pod_count'', JInt 0),
                                  (''pods'', JList [])])\<rparr>"
proof -
  have h: "list_namespaced_pod demo_cluster ''default'' = Inr []"
    by (simp add: demo_cluster_def)
  show ?thesis
    using h zero_pods [OF h]
    by (simp add: do_GET_def namespace_param_def)
qed

text \<open>
  Claim C8. The answers that \<open>do_GET\<close> sends with \<^verbatim>\<open>send_error\<close> do not carry the
  CORS header: the 404 answer for the unrecognised path \<^verbatim>\<open>/metrics\<close> and the 500
  answer for a request target that \<^verbatim>\<open>urlparse\<close> rejects have no
  \<^verbatim>\<open>Access-Control-Allow-Origin\<close> header, unlike every answer of a handler.
\<close>

theorem unknown_path_lacks_cors:
  "do_GET Map.empty demo_cluster (Inr \<lparr>target_path = ''/metrics'', target_query = []\<rparr>) =
     \<lparr>resp_status = 404,
      resp_headers = [(''Connection'', ''close''), (''Content-Type'', ''text/html;charset=utf-8'')],
      resp_body = ErrorPage 404 ''Not Found''\<rparr> \<and>
   header (do_GET Map.empty demo_cluster (Inr \<lparr>target_path = ''/metrics'', target_query = []\<rparr>))
     ''Access-Control-Allow-Origin'' = None \<and>
   do_GET Map.empty demo_cluster (Inl (ValueError ''Invalid IPv6 URL'')) =
     \<lparr>resp_status = 500,
      resp_headers = [(''Connection'', ''close''), (''Content-Type'', ''text/html;charset=utf-8'')],
      resp_body = ErrorPage 500 ''Invalid IPv6 URL''\<rparr> \<and>
   header (do_GET Map.empty demo_cluster (Inl (ValueError ''Invalid IPv6 URL'')))
     ''Access-Control-Allow-Origin'' = None"
  by (simp add: do_GET_def send_error_def header_def)

text \<open>
  Claim C10. In the enhanced server, reading a resource never raises: for every URI and
  every behaviour of the cluster client \<open>handle_read_resource\<close> returns a JSON object,
  and for a URI other than the three known ones this object is the \<open>error\<close> object
  made from the caught \<^verbatim>\<open>ValueError\<close>.
\<close>

theorem read_resource_never_raises:
  "(\<exists>d. handle_read_resource env k uri = Inr (JObj d)) \<and>
   (uri \<noteq> ''resource://cluster-info'' \<and> uri \<noteq> ''resource://node-info'' \<and>
    uri \<noteq> ''resource://health'' \<longrightarrow>
      handle_read_resource env k uri =
        Inr (JObj [(''error'', JStr (''Unknown resource: '' @ uri))]))"
  by (auto simp: handle_read_resource_def and_then_def try_except_def split: sum.splits)

theorem read_resource_never_raises_witness:
  "handle_read_resource Map.empty demo_cluster ''resource://nope'' =
     Inr (JObj [(''error'', JStr ''Unknown resource: resource://nope'')]) \<and>
   handle_read_resource Map.empty young_cluster ''resource://node-info'' =
     Inr (JObj [(''error'', JStr none_not_iterable)])"
proof -
  have other: "''resource://nope'' \<noteq> ''resource://cluster-info'' \<and>
     ''resource://nope'' \<noteq> ''resource://node-info'' \<and> ''resource://nope'' \<noteq> ''resource://health''"
    by simp
  from read_resource_never_raises [of Map.empty demo_cluster "''resource://nope''"] other
  have a: "handle_read_resource Map.empty demo_cluster ''resource://nope'' =
     Inr (JObj [(''error'', JStr ''Unknown resource: resource://nope'')])"
    by simp
  have b: "handle_read_resource Map.empty young_cluster ''resource://node-info'' =
     Inr (JObj [(''error'', JStr none_not_iterable)])"
    by (simp add: handle_read_resource_def young_cluster_def node_info_entry_def node_a_def
        node_c_def meta_def attr_def iter_def labels_get_def json_str_def is_ready_def
        ready_condition_def)
  from a b show ?thesis
    by simp
qed

end
